theory Spec2Isabelle
  imports Main
begin

section \<open>Dates and date-times (the part of Python's datetime module the store uses)\<close>

text \<open>
  The store holds naive \<^verbatim>\<open>datetime\<close> objects and compares \<^verbatim>\<open>date\<close> objects.
  A value is written with the arguments of its Python constructor:
  \<^verbatim>\<open>date(year, month, day)\<close> and
  \<^verbatim>\<open>datetime(year, month, day, hour, minute, second, microsecond)\<close>.
  The Python constructors accept exactly the field ranges of \<open>valid_date\<close> and
  \<open>valid_datetime\<close>.
\<close>

datatype date = Date nat nat nat

datatype datetime = Datetime nat nat nat nat nat nat nat

definition is_leap :: "nat \<Rightarrow> bool" where
  "is_leap y = (y mod 4 = 0 \<and> (y mod 100 \<noteq> 0 \<or> y mod 400 = 0))"

definition days_in_month :: "nat \<Rightarrow> nat \<Rightarrow> nat" where
  "days_in_month y m =
     (if m = 2 then (if is_leap y then 29 else 28)
      else if m = 4 \<or> m = 6 \<or> m = 9 \<or> m = 11 then 30 else 31)"

fun valid_date :: "date \<Rightarrow> bool" where
  "valid_date (Date y m d) =
     (1 \<le> y \<and> y \<le> 9999 \<and> 1 \<le> m \<and> m \<le> 12 \<and> 1 \<le> d \<and> d \<le> days_in_month y m)"

fun valid_datetime :: "datetime \<Rightarrow> bool" where
  "valid_datetime (Datetime y m d h mi s us) =
     (valid_date (Date y m d) \<and> h < 24 \<and> mi < 60 \<and> s < 60 \<and> us < 1000000)"

text \<open>\<^verbatim>\<open>datetime.date()\<close>: the date component.\<close>

fun date_of :: "datetime \<Rightarrow> date" where
  "date_of (Datetime y m d h mi s us) = Date y m d"

text \<open>\<^verbatim>\<open>date.__lt__\<close>: dates compare as the triples (year, month, day).\<close>

fun date_lt :: "date \<Rightarrow> date \<Rightarrow> bool" where
  "date_lt (Date y1 m1 d1) (Date y2 m2 d2) =
     (y1 < y2 \<or> (y1 = y2 \<and> (m1 < m2 \<or> (m1 = m2 \<and> d1 < d2))))"

text \<open>\<^verbatim>\<open>d + timedelta(days=1)\<close> on the calendar.\<close>

fun next_day :: "date \<Rightarrow> date" where
  "next_day (Date y m d) =
     (if d < days_in_month y m then Date y m (d + 1)
      else if m < 12 then Date y (m + 1) 1
      else Date (y + 1) 1 1)"

subsection \<open>isoformat and fromisoformat\<close>

definition digit_char :: "nat \<Rightarrow> char" where
  "digit_char n = ''0123456789'' ! (n mod 10)"

definition digit_val :: "char \<Rightarrow> nat option" where
  "digit_val c = map_of (zip ''0123456789'' [0, 1, 2, 3, 4, 5, 6, 7, 8, 9]) c"

text \<open>Zero-padded decimal fields, as \<^verbatim>\<open>%02d\<close>, \<^verbatim>\<open>%04d\<close> and \<^verbatim>\<open>%06d\<close> print them.\<close>

definition pad2 :: "nat \<Rightarrow> string" where
  "pad2 n = [digit_char (n div 10), digit_char n]"

definition pad4 :: "nat \<Rightarrow> string" where
  "pad4 n = [digit_char (n div 1000), digit_char (n div 100), digit_char (n div 10), digit_char n]"

definition pad6 :: "nat \<Rightarrow> string" where
  "pad6 n = [digit_char (n div 100000), digit_char (n div 10000), digit_char (n div 1000),
             digit_char (n div 100), digit_char (n div 10), digit_char n]"

fun parse_nat :: "nat \<Rightarrow> string \<Rightarrow> nat option" where
  "parse_nat acc [] = Some acc"
| "parse_nat acc (c # cs) =
     (case digit_val c of None \<Rightarrow> None | Some v \<Rightarrow> parse_nat (10 * acc + v) cs)"

text \<open>
  \<^verbatim>\<open>datetime.isoformat()\<close> of a naive datetime:
  \<^verbatim>\<open>YYYY-MM-DDTHH:MM:SS\<close>, followed by \<^verbatim>\<open>.ffffff\<close> when the microsecond is not 0.
\<close>

fun isoformat :: "datetime \<Rightarrow> string" where
  "isoformat (Datetime y m d h mi s us) =
     pad4 y @ ''-'' @ pad2 m @ ''-'' @ pad2 d @ ''T'' @ pad2 h @ '':'' @ pad2 mi @ '':'' @ pad2 s
       @ (if us = 0 then [] else ''.'' @ pad6 us)"

text \<open>The exceptions that occur while a store is constructed.\<close>

datatype exn = JSONDecodeError | KeyError | ValueError | AttributeError | TypeError

text \<open>
  \<^verbatim>\<open>datetime.fromisoformat(s)\<close> on a string, for the two forms that \<open>isoformat\<close>
  writes, which are the only ones the store puts into its file: any other string, and any
  string whose fields do not form a datetime, is a \<^verbatim>\<open>ValueError\<close>. (CPython also reads
  a date alone, shorter times, another separator character and UTC offsets; such strings
  stand only in files that the store did not write, and no property below depends on
  what happens to them.)
\<close>

definition fromisoformat :: "string \<Rightarrow> exn + datetime" where
  "fromisoformat s =
     (let n = length s in
      if (n = 19 \<or> (n = 26 \<and> s ! 19 = CHR ''.''))
         \<and> s ! 4 = CHR ''-'' \<and> s ! 7 = CHR ''-'' \<and> s ! 10 = CHR ''T''
         \<and> s ! 13 = CHR '':'' \<and> s ! 16 = CHR '':''
      then
        (case (parse_nat 0 (take 4 s), parse_nat 0 (take 2 (drop 5 s)),
               parse_nat 0 (take 2 (drop 8 s)), parse_nat 0 (take 2 (drop 11 s)),
               parse_nat 0 (take 2 (drop 14 s)), parse_nat 0 (take 2 (drop 17 s)),
               parse_nat 0 (drop 20 s)) of
           (Some y, Some m, Some d, Some h, Some mi, Some sec, Some us) \<Rightarrow>
             if valid_datetime (Datetime y m d h mi sec us)
             then Inr (Datetime y m d h mi sec us) else Inl ValueError
         | _ \<Rightarrow> Inl ValueError)
      else Inl ValueError)"

section \<open>Entity model (models.py)\<close>

datatype Priority = LOW | MEDIUM | HIGH

datatype Status = PENDING | IN_PROGRESS | COMPLETED

text \<open>The \<^verbatim>\<open>.value\<close> of each enum member.\<close>

fun Priority_value :: "Priority \<Rightarrow> string" where
  "Priority_value LOW = ''low''"
| "Priority_value MEDIUM = ''medium''"
| "Priority_value HIGH = ''high''"

fun Status_value :: "Status \<Rightarrow> string" where
  "Status_value PENDING = ''pending''"
| "Status_value IN_PROGRESS = ''in_progress''"
| "Status_value COMPLETED = ''completed''"

record Task =
  task_id :: int
  title :: string
  description :: string
  priority :: Priority
  status :: Status
  due_date :: "datetime option"
  created_at :: datetime
  updated_at :: datetime
  tags :: "string list"

section \<open>Python dictionaries with insertion order\<close>

text \<open>
  \<^verbatim>\<open>dict[int, Task]\<close> as the list of its items in insertion order.
  Assigning to a key that is present replaces the value where it stands; assigning to a
  new key appends; \<^verbatim>\<open>del\<close> removes the item.
\<close>

type_synonym ('k, 'v) dict = "('k \<times> 'v) list"

definition dict_get :: "('k, 'v) dict \<Rightarrow> 'k \<Rightarrow> 'v option" where
  "dict_get d k = map_of d k"

fun dict_set :: "('k, 'v) dict \<Rightarrow> 'k \<Rightarrow> 'v \<Rightarrow> ('k, 'v) dict" where
  "dict_set [] k v = [(k, v)]"
| "dict_set ((k', v') # d) k v = (if k' = k then (k, v) # d else (k', v') # dict_set d k v)"

definition dict_del :: "('k, 'v) dict \<Rightarrow> 'k \<Rightarrow> ('k, 'v) dict" where
  "dict_del d k = filter (\<lambda>kv. fst kv \<noteq> k) d"

definition dict_values :: "('k, 'v) dict \<Rightarrow> 'v list" where
  "dict_values d = map snd d"

section \<open>The persisted document\<close>

text \<open>
  The value that \<^verbatim>\<open>json.load\<close> returns and \<^verbatim>\<open>json.dump\<close> writes: null, booleans,
  integers, strings, arrays and objects (an object as the list of its items, each key
  once). Numbers with a fraction, which the store never writes, are left out. A backing
  file is absent, or holds text that is not JSON, or holds a document.
\<close>

datatype json = JNull | JBool bool | JInt int | JStr string | JList "json list"
  | JDict "(string \<times> json) list"

datatype file_content = Not_JSON | Document json

type_synonym backing_file = "file_content option"

section \<open>The task store (store.py)\<close>

text \<open>
  The state of a \<^verbatim>\<open>TaskStore\<close>: the dictionary \<^verbatim>\<open>_tasks\<close>, the counter \<^verbatim>\<open>_next_id\<close> and
  the content of the file at \<^verbatim>\<open>_storage_file\<close>. The methods \<^verbatim>\<open>_save_to_file\<close> and
  \<^verbatim>\<open>_load_from_file\<close> are \<open>save_to_file\<close> and \<open>load_from_file\<close>, the field \<^verbatim>\<open>id\<close> of a
  task is \<open>task_id\<close>. Writing the file is taken to succeed.
\<close>

record TaskStore =
  tasks :: "(int, Task) dict"
  next_id :: int
  storage_file :: backing_file

subsection \<open>Persistence\<close>

definition task_record :: "Task \<Rightarrow> json" where
  "task_record task = JDict
     [(''id'', JInt (task_id task)),
      (''title'', JStr (title task)),
      (''description'', JStr (description task)),
      (''priority'', JStr (Priority_value (priority task))),
      (''status'', JStr (Status_value (status task))),
      (''due_date'', (case due_date task of Some d \<Rightarrow> JStr (isoformat d) | None \<Rightarrow> JNull)),
      (''created_at'', JStr (isoformat (created_at task))),
      (''updated_at'', JStr (isoformat (updated_at task))),
      (''tags'', JList (map JStr (tags task)))]"

definition save_to_file :: "TaskStore \<Rightarrow> TaskStore" where
  "save_to_file self = self\<lparr>storage_file := Some (Document (JDict
     [(''next_id'', JInt (next_id self)),
      (''tasks'', JList (map task_record (dict_values (tasks self))))]))\<rparr>"

text \<open>Sequencing of steps that may raise: the first exception ends the evaluation.\<close>

definition and_then :: "exn + 'a \<Rightarrow> ('a \<Rightarrow> exn + 'b) \<Rightarrow> exn + 'b" where
  "and_then m f = (case m of Inl e \<Rightarrow> Inl e | Inr x \<Rightarrow> f x)"

text \<open>
  What the Python operations used by the loader do on each kind of value:
  \<^verbatim>\<open>v.get(key, default)\<close> exists on objects only, \<^verbatim>\<open>v[key]\<close> with a string key
  succeeds on an object that has the key, \<^verbatim>\<open>for x in v\<close> runs over the elements of
  an array, the keys of an object and the characters of a string, and
  \<^verbatim>\<open>datetime.fromisoformat\<close> takes strings only.
\<close>

fun py_get :: "json \<Rightarrow> string \<Rightarrow> json \<Rightarrow> exn + json" where
  "py_get (JDict kvs) key dflt =
     Inr (case map_of kvs key of None \<Rightarrow> dflt | Some v \<Rightarrow> v)"
| "py_get _ key dflt = Inl AttributeError"

fun py_item :: "json \<Rightarrow> string \<Rightarrow> exn + json" where
  "py_item (JDict kvs) key = (case map_of kvs key of None \<Rightarrow> Inl KeyError | Some v \<Rightarrow> Inr v)"
| "py_item _ key = Inl TypeError"

fun py_iter :: "json \<Rightarrow> exn + json list" where
  "py_iter (JList xs) = Inr xs"
| "py_iter (JDict kvs) = Inr (map (\<lambda>kv. JStr (fst kv)) kvs)"
| "py_iter (JStr s) = Inr (map (\<lambda>c. JStr [c]) s)"
| "py_iter _ = Inl TypeError"

fun py_truthy :: "json \<Rightarrow> bool" where
  "py_truthy JNull = False"
| "py_truthy (JBool b) = b"
| "py_truthy (JInt i) = (i \<noteq> 0)"
| "py_truthy (JStr s) = (s \<noteq> [])"
| "py_truthy (JList xs) = (xs \<noteq> [])"
| "py_truthy (JDict kvs) = (kvs \<noteq> [])"

fun py_hashable :: "json \<Rightarrow> bool" where
  "py_hashable (JList xs) = False"
| "py_hashable (JDict kvs) = False"
| "py_hashable _ = True"

text \<open>\<^verbatim>\<open>Priority(v)\<close> and \<^verbatim>\<open>Status(v)\<close>: lookup of an enum member by value.\<close>

definition Priority_of :: "json \<Rightarrow> exn + Priority" where
  "Priority_of v =
     (if v = JStr ''low'' then Inr LOW else if v = JStr ''medium'' then Inr MEDIUM
      else if v = JStr ''high'' then Inr HIGH else Inl ValueError)"

definition Status_of :: "json \<Rightarrow> exn + Status" where
  "Status_of v =
     (if v = JStr ''pending'' then Inr PENDING
      else if v = JStr ''in_progress'' then Inr IN_PROGRESS
      else if v = JStr ''completed'' then Inr COMPLETED else Inl ValueError)"

fun py_fromisoformat :: "json \<Rightarrow> exn + datetime" where
  "py_fromisoformat (JStr s) = fromisoformat s"
| "py_fromisoformat _ = Inl TypeError"

text \<open>
  The loader converts neither \<^verbatim>\<open>next_id\<close>, \<^verbatim>\<open>id\<close>, \<^verbatim>\<open>title\<close>, \<^verbatim>\<open>description\<close> nor
  \<^verbatim>\<open>tags\<close>: Python stores whatever value the document holds. A value of the declared
  type (\<^verbatim>\<open>int\<close>, \<^verbatim>\<open>str\<close>, a list of \<^verbatim>\<open>str\<close>) is read by the functions below;
  any other value is accepted by Python without an exception and leaves the store
  outside its declared types, which is recorded as the outcome \<open>Returns_untyped\<close>.
\<close>

fun as_int :: "json \<Rightarrow> int option" where
  "as_int (JInt i) = Some i"
| "as_int _ = None"

fun as_str :: "json \<Rightarrow> string option" where
  "as_str (JStr s) = Some s"
| "as_str _ = None"

fun as_strs :: "json list \<Rightarrow> string list option" where
  "as_strs [] = Some []"
| "as_strs (v # vs) =
     (case (as_str v, as_strs vs) of (Some s, Some ss) \<Rightarrow> Some (s # ss) | _ \<Rightarrow> None)"

fun as_str_list :: "json \<Rightarrow> string list option" where
  "as_str_list (JList vs) = as_strs vs"
| "as_str_list _ = None"

text \<open>
  One iteration of the loop of \<^verbatim>\<open>_load_from_file\<close>, up to the constructed task: the
  keyword arguments of \<^verbatim>\<open>Task(...)\<close> are evaluated in the order written, and the
  insertion \<^verbatim>\<open>self._tasks[task.id] = task\<close> needs a hashable id. The result \<open>None\<close> is a
  task with a field outside its declared type.
\<close>

definition load_task :: "json \<Rightarrow> exn + Task option" where
  "load_task task_data =
     and_then (py_get task_data ''due_date'' JNull) (\<lambda>due_date_str.
     and_then (py_item task_data ''id'') (\<lambda>id_v.
     and_then (py_item task_data ''title'') (\<lambda>title_v.
     and_then (py_get task_data ''description'' (JStr [])) (\<lambda>description_v.
     and_then (and_then (py_item task_data ''priority'') Priority_of) (\<lambda>priority_v.
     and_then (and_then (py_item task_data ''status'') Status_of) (\<lambda>status_v.
     and_then (if py_truthy due_date_str
               then and_then (py_fromisoformat due_date_str) (\<lambda>d. Inr (Some d))
               else Inr None) (\<lambda>due_date_v.
     and_then (and_then (py_item task_data ''created_at'') py_fromisoformat) (\<lambda>created_at_v.
     and_then (and_then (py_item task_data ''updated_at'') py_fromisoformat) (\<lambda>updated_at_v.
     and_then (py_get task_data ''tags'' (JList [])) (\<lambda>tags_v.
       if \<not> py_hashable id_v then Inl TypeError
       else Inr (case (as_int id_v, as_str title_v, as_str description_v, as_str_list tags_v) of
                   (Some i, Some t, Some d, Some tg) \<Rightarrow>
                     Some \<lparr>task_id = i, title = t, description = d, priority = priority_v,
                           status = status_v, due_date = due_date_v,
                           created_at = created_at_v, updated_at = updated_at_v, tags = tg\<rparr>
                 | _ \<Rightarrow> None)))))))))))"

text \<open>
  The loop over the records. The flag is False once a record outside the declared
  types has been stored; later records still raise what they raise.
\<close>

fun load_records :: "json list \<Rightarrow> (int, Task) dict \<Rightarrow> bool \<Rightarrow> exn + ((int, Task) dict \<times> bool)" where
  "load_records [] d typed = Inr (d, typed)"
| "load_records (task_data # rest) d typed =
     (case load_task task_data of
        Inl e \<Rightarrow> Inl e
      | Inr None \<Rightarrow> load_records rest d False
      | Inr (Some task) \<Rightarrow> load_records rest (dict_set d (task_id task) task) typed)"

definition json_load :: "file_content \<Rightarrow> exn + json" where
  "json_load f = (case f of Not_JSON \<Rightarrow> Inl JSONDecodeError | Document data \<Rightarrow> Inr data)"

text \<open>The body of the \<^verbatim>\<open>try\<close> block.\<close>

definition load_document :: "TaskStore \<Rightarrow> file_content \<Rightarrow> exn + TaskStore option" where
  "load_document self f =
     and_then (json_load f) (\<lambda>data.
     and_then (py_get data ''next_id'' (JInt 1)) (\<lambda>next_id_v.
     and_then (py_get data ''tasks'' (JList [])) (\<lambda>tasks_v.
     and_then (py_iter tasks_v) (\<lambda>records.
     and_then (load_records records (tasks self) True) (\<lambda>(d, typed).
       Inr (case as_int next_id_v of
              Some n \<Rightarrow> if typed then Some (self\<lparr>tasks := d, next_id := n\<rparr>) else None
            | None \<Rightarrow> None))))))"

datatype 'a outcome = Returns 'a | Raises exn | Returns_untyped

text \<open>
  \<^verbatim>\<open>_load_from_file\<close>: nothing happens when the file does not exist; the handler
  \<^verbatim>\<open>except (json.JSONDecodeError, KeyError, ValueError)\<close> starts fresh; any other
  exception leaves the method.
\<close>

definition load_from_file :: "TaskStore \<Rightarrow> TaskStore outcome" where
  "load_from_file self =
     (case storage_file self of
        None \<Rightarrow> Returns self
      | Some f \<Rightarrow>
          (case load_document self f of
             Inr (Some self') \<Rightarrow> Returns self'
           | Inr None \<Rightarrow> Returns_untyped
           | Inl e \<Rightarrow>
               if e = JSONDecodeError \<or> e = KeyError \<or> e = ValueError
               then Returns (self\<lparr>tasks := [], next_id := 1\<rparr>)
               else Raises e))"

text \<open>\<^verbatim>\<open>TaskStore.__init__\<close>, given the backing file found at the storage path.\<close>

definition TaskStore_init :: "backing_file \<Rightarrow> TaskStore outcome" where
  "TaskStore_init f = load_from_file \<lparr>tasks = [], next_id = 1, storage_file = f\<rparr>"

subsection \<open>Create, read, update, delete\<close>

text \<open>
  The two clock readings of \<open>add_task\<close> are the two calls of \<^verbatim>\<open>datetime.now\<close> made by
  the default factories of \<^verbatim>\<open>created_at\<close> and \<^verbatim>\<open>updated_at\<close>; \<^verbatim>\<open>tags or []\<close> turns
  both None and the empty list into an empty list. Each operation returns its result
  together with the store it leaves.
\<close>

definition add_task ::
  "TaskStore \<Rightarrow> string \<Rightarrow> string \<Rightarrow> Priority \<Rightarrow> string list option \<Rightarrow> datetime option
     \<Rightarrow> datetime \<Rightarrow> datetime \<Rightarrow> Task \<times> TaskStore" where
  "add_task self title_v description_v priority_v tags_v due_date_v now1 now2 =
     (let task = \<lparr>task_id = next_id self, title = title_v, description = description_v,
                  priority = priority_v, status = PENDING, due_date = due_date_v,
                  created_at = now1, updated_at = now2,
                  tags = (case tags_v of None \<Rightarrow> [] | Some l \<Rightarrow> if l = [] then [] else l)\<rparr>
      in (task, save_to_file (self\<lparr>tasks := dict_set (tasks self) (next_id self) task,
                                   next_id := next_id self + 1\<rparr>)))"

definition get_task :: "TaskStore \<Rightarrow> int \<Rightarrow> Task option" where
  "get_task self i = dict_get (tasks self) i"

definition get_all_tasks :: "TaskStore \<Rightarrow> Task list" where
  "get_all_tasks self = dict_values (tasks self)"

text \<open>\<^verbatim>\<open>date.today()\<close> is the second argument.\<close>

definition get_overdue_tasks :: "TaskStore \<Rightarrow> date \<Rightarrow> Task list" where
  "get_overdue_tasks self today =
     filter (\<lambda>task. case due_date task of
                       None \<Rightarrow> False
                     | Some d \<Rightarrow> date_lt (date_of d) today \<and> status task \<noteq> COMPLETED)
       (dict_values (tasks self))"

text \<open>
  \<open>update_task\<close> assigns to the fields of the task object held by the dictionary, so the
  entry changes where it stands. The last argument is the reading of \<^verbatim>\<open>datetime.now()\<close>.
\<close>

definition update_task ::
  "TaskStore \<Rightarrow> int \<Rightarrow> string option \<Rightarrow> string option \<Rightarrow> Priority option \<Rightarrow> Status option
     \<Rightarrow> datetime option \<Rightarrow> bool \<Rightarrow> string list option \<Rightarrow> datetime \<Rightarrow> Task option \<times> TaskStore" where
  "update_task self i title_v description_v priority_v status_v due_date_v clear_due_date tags_v now =
     (case dict_get (tasks self) i of
        None \<Rightarrow> (None, self)
      | Some task \<Rightarrow>
          (let t1 = (case title_v of None \<Rightarrow> task | Some v \<Rightarrow> task\<lparr>title := v\<rparr>);
               t2 = (case description_v of None \<Rightarrow> t1 | Some v \<Rightarrow> t1\<lparr>description := v\<rparr>);
               t3 = (case priority_v of None \<Rightarrow> t2 | Some v \<Rightarrow> t2\<lparr>priority := v\<rparr>);
               t4 = (case status_v of None \<Rightarrow> t3 | Some v \<Rightarrow> t3\<lparr>status := v\<rparr>);
               t5 = (if clear_due_date then t4\<lparr>due_date := None\<rparr>
                     else (case due_date_v of None \<Rightarrow> t4 | Some v \<Rightarrow> t4\<lparr>due_date := Some v\<rparr>));
               t6 = (case tags_v of None \<Rightarrow> t5 | Some v \<Rightarrow> t5\<lparr>tags := v\<rparr>);
               t7 = t6\<lparr>updated_at := now\<rparr>
           in (Some t7, save_to_file (self\<lparr>tasks := dict_set (tasks self) i t7\<rparr>))))"

definition mark_completed :: "TaskStore \<Rightarrow> int \<Rightarrow> datetime \<Rightarrow> Task option \<times> TaskStore" where
  "mark_completed self i now = update_task self i None None None (Some COMPLETED) None False None now"

definition delete_task :: "TaskStore \<Rightarrow> int \<Rightarrow> bool \<times> TaskStore" where
  "delete_task self i =
     (if i \<in> set (map fst (tasks self))
      then (True, save_to_file (self\<lparr>tasks := dict_del (tasks self) i\<rparr>))
      else (False, self))"

definition clear_all :: "TaskStore \<Rightarrow> int \<times> TaskStore" where
  "clear_all self = (int (length (tasks self)), save_to_file (self\<lparr>tasks := []\<rparr>))"

section \<open>Sequences of calls and reachable stores\<close>

text \<open>A caller's sequence of create, delete and clear calls; the run returns the ids that
  the creates assigned, in call order, and the store it ends in.\<close>

datatype store_call =
    Add_task string string Priority "string list option" "datetime option" datetime datetime
  | Delete_task int
  | Clear_all

fun is_add :: "store_call \<Rightarrow> bool" where
  "is_add (Add_task t d p tg du n1 n2) = True"
| "is_add _ = False"

fun run_calls :: "TaskStore \<Rightarrow> store_call list \<Rightarrow> int list \<times> TaskStore" where
  "run_calls self [] = ([], self)"
| "run_calls self (Add_task t d p tg du n1 n2 # calls) =
     (case add_task self t d p tg du n1 n2 of
        (task, self') \<Rightarrow>
          (case run_calls self' calls of (ids, final) \<Rightarrow> (task_id task # ids, final)))"
| "run_calls self (Delete_task i # calls) = run_calls (snd (delete_task self i)) calls"
| "run_calls self (Clear_all # calls) = run_calls (snd (clear_all self)) calls"

text \<open>
  The datetime values a store receives are Python datetime objects, so within the
  constructor's ranges.
\<close>

definition valid_due :: "datetime option \<Rightarrow> bool" where
  "valid_due due = (case due of None \<Rightarrow> True | Some d \<Rightarrow> valid_datetime d)"

definition valid_task :: "Task \<Rightarrow> bool" where
  "valid_task t =
     (valid_datetime (created_at t) \<and> valid_datetime (updated_at t) \<and> valid_due (due_date t))"

text \<open>The stores that the constructor and the public mutating operations produce.\<close>

inductive reachable :: "TaskStore \<Rightarrow> bool" where
  init: "TaskStore_init f = Returns self \<Longrightarrow> reachable self"
| add: "reachable self \<Longrightarrow> valid_datetime now1 \<Longrightarrow> valid_datetime now2 \<Longrightarrow> valid_due du
         \<Longrightarrow> reachable (snd (add_task self t d p tg du now1 now2))"
| update: "reachable self \<Longrightarrow> valid_datetime now \<Longrightarrow> valid_due du
         \<Longrightarrow> reachable (snd (update_task self i t d p s du clr tg now))"
| delete: "reachable self \<Longrightarrow> reachable (snd (delete_task self i))"
| clear: "reachable self \<Longrightarrow> reachable (snd (clear_all self))"

text \<open>Every key of the dictionary is the id of the task it holds, and each key occurs once.\<close>

definition entry_ok :: "int \<times> Task \<Rightarrow> bool" where
  "entry_ok kv = (task_id (snd kv) = fst kv \<and> valid_task (snd kv))"

definition store_inv :: "TaskStore \<Rightarrow> bool" where
  "store_inv self = (distinct (map fst (tasks self)) \<and> list_all entry_ok (tasks self))"

text \<open>Every key of the collection lies below the next-id counter.\<close>

definition keys_below_counter :: "TaskStore \<Rightarrow> bool" where
  "keys_below_counter self = list_all (\<lambda>kv. fst kv < next_id self) (tasks self)"

text \<open>
  The stores of a run that begins without a backing file: the constructor finds no file,
  the public operations mutate the store, and a restart constructs a store again from
  the file that the store before it left behind.
\<close>

inductive started_fresh :: "TaskStore \<Rightarrow> bool" where
  first: "TaskStore_init None = Returns self \<Longrightarrow> started_fresh self"
| add: "started_fresh self \<Longrightarrow> valid_datetime now1 \<Longrightarrow> valid_datetime now2 \<Longrightarrow> valid_due du
         \<Longrightarrow> started_fresh (snd (add_task self t d p tg du now1 now2))"
| update: "started_fresh self \<Longrightarrow> valid_datetime now \<Longrightarrow> valid_due du
         \<Longrightarrow> started_fresh (snd (update_task self i t d p s du clr tg now))"
| delete: "started_fresh self \<Longrightarrow> started_fresh (snd (delete_task self i))"
| clear: "started_fresh self \<Longrightarrow> started_fresh (snd (clear_all self))"
| restart: "started_fresh self \<Longrightarrow> TaskStore_init (storage_file self) = Returns self'
         \<Longrightarrow> started_fresh self'"

subsection \<open>Example stores\<close>

definition clock :: "nat \<Rightarrow> datetime" where
  "clock n = Datetime 2024 3 10 9 30 n 0"

definition fresh_store :: TaskStore where
  "fresh_store = \<lparr>tasks = [], next_id = 1, storage_file = None\<rparr>"

text \<open>Two creates on a fresh store, the first with a due date.\<close>

definition demo_store :: TaskStore where
  "demo_store =
     snd (add_task
       (snd (add_task fresh_store ''Write report'' [] HIGH None
          (Some (Datetime 2024 3 9 17 0 0 0)) (clock 0) (clock 0)))
       ''Email team'' [] MEDIUM (Some [''mail'']) None (clock 1) (clock 1))"

definition demo_task :: Task where
  "demo_task = \<lparr>task_id = 1, title = ''Write report'', description = [], priority = HIGH,
     status = PENDING, due_date = Some (Datetime 2024 3 9 17 0 0 0),
     created_at = clock 0, updated_at = clock 0, tags = []\<rparr>"

text \<open>Three tasks for the day 2024-03-10: due the day before and pending, due the day
  before and completed, and due the day after.\<close>

definition overdue_store :: TaskStore where
  "overdue_store =
     snd (add_task
       (snd (mark_completed
         (snd (add_task
           (snd (add_task fresh_store ''late'' [] HIGH None
              (Some (Datetime 2024 3 9 17 0 0 0)) (clock 0) (clock 0)))
           ''done'' [] LOW None (Some (Datetime 2024 3 9 8 0 0 0)) (clock 1) (clock 1)))
         2 (clock 2)))
       ''soon'' [] MEDIUM None (Some (Datetime 2024 3 11 0 0 0 0)) (clock 3) (clock 3))"

subsection \<open>Example backing files\<close>

text \<open>A record with every key of the persisted schema, given its priority token and its
  \<^verbatim>\<open>created_at\<close> value, and a document around a list of records.\<close>

definition sample_record :: "json \<Rightarrow> json \<Rightarrow> json" where
  "sample_record priority_v created_at_v = JDict
     [(''id'', JInt 1), (''title'', JStr ''a''), (''description'', JStr []),
      (''priority'', priority_v), (''status'', JStr ''pending''), (''due_date'', JNull),
      (''created_at'', created_at_v), (''updated_at'', JStr ''2024-03-10T09:30:00''),
      (''tags'', JList [])]"

definition document_of :: "json list \<Rightarrow> backing_file" where
  "document_of records = Some (Document (JDict [(''next_id'', JInt 2), (''tasks'', JList records)]))"

text \<open>A backing file that holds one task with id 1 and no \<^verbatim>\<open>next_id\<close> key, and the store
  that the constructor returns for it.\<close>

definition counterless_file :: backing_file where
  "counterless_file = Some (Document (JDict
     [(''tasks'', JList [sample_record (JStr ''low'') (JStr ''2024-03-10T09:30:00'')])]))"

definition counterless_store :: TaskStore where
  "counterless_store =
     \<lparr>tasks = [(1, \<lparr>task_id = 1, title = ''a'', description = [], priority = LOW,
                       status = PENDING, due_date = None,
                       created_at = Datetime 2024 3 10 9 30 0 0,
                       updated_at = Datetime 2024 3 10 9 30 0 0, tags = []\<rparr>)],
       next_id = 1, storage_file = counterless_file\<rparr>"

section \<open>Properties\<close>

subsection \<open>Dictionaries and saving\<close>

lemma tasks_save_to_file [simp]: "tasks (save_to_file s) = tasks s"
  by (simp add: save_to_file_def)

lemma next_id_save_to_file [simp]: "next_id (save_to_file s) = next_id s"
  by (simp add: save_to_file_def)

lemma dict_get_set_same [simp]: "dict_get (dict_set d k v) k = Some v"
  by (induction d) (auto simp: dict_get_def)

lemma dict_get_set_other [simp]: "j \<noteq> k \<Longrightarrow> dict_get (dict_set d k v) j = dict_get d j"
  by (induction d) (auto simp: dict_get_def)

lemma dict_get_None_iff: "dict_get d k = None \<longleftrightarrow> k \<notin> fst ` set d"
  by (simp add: dict_get_def map_of_eq_None_iff)

lemma map_fst_dict_set:
  "map fst (dict_set d k v) = (if k \<in> fst ` set d then map fst d else map fst d @ [k])"
  by (induction d) force+

lemma dict_set_absent: "k \<notin> fst ` set d \<Longrightarrow> dict_set d k v = d @ [(k, v)]"
  by (induction d) auto

lemma distinct_dict_set: "distinct (map fst d) \<Longrightarrow> distinct (map fst (dict_set d k v))"
  by (simp add: map_fst_dict_set)

subsection \<open>Formatting and parsing date-times\<close>

lemma digit_val_digit_char: "digit_val (digit_char n) = Some (n mod 10)"
proof -
  have "n mod 10 = 0 \<or> n mod 10 = 1 \<or> n mod 10 = 2 \<or> n mod 10 = 3 \<or> n mod 10 = 4
      \<or> n mod 10 = 5 \<or> n mod 10 = 6 \<or> n mod 10 = 7 \<or> n mod 10 = 8 \<or> n mod 10 = 9"
    by presburger
  then show ?thesis
    unfolding digit_val_def digit_char_def by (elim disjE) simp_all
qed

lemma div_100: "(n::nat) div 100 = n div 10 div 10"
  using div_mult2_eq [of n 10 10] by simp

lemma div_1000: "(n::nat) div 1000 = n div 10 div 10 div 10"
  using div_mult2_eq [of n 100 10] by (simp add: div_100)

lemma div_10000: "(n::nat) div 10000 = n div 10 div 10 div 10 div 10"
  using div_mult2_eq [of n 1000 10] by (simp add: div_1000)

lemma div_100000: "(n::nat) div 100000 = n div 10 div 10 div 10 div 10 div 10"
  using div_mult2_eq [of n 10000 10] by (simp add: div_10000)

lemma four_digits:
  assumes "(n::nat) < 10000"
  shows "10 * (10 * (10 * (n div 1000 mod 10) + n div 100 mod 10) + n div 10 mod 10) + n mod 10 = n"
proof -
  have "n div 1000 < 10" using assms by simp
  then have "n div 1000 mod 10 = n div 10 div 10 div 10" by (simp add: div_1000)
  then show ?thesis by (simp add: div_100)
qed

lemma six_digits:
  assumes "(n::nat) < 1000000"
  shows "10 * (10 * (10 * (10 * (10 * (n div 100000 mod 10) + n div 10000 mod 10)
           + n div 1000 mod 10) + n div 100 mod 10) + n div 10 mod 10) + n mod 10 = n"
proof -
  have "n div 100000 < 10" using assms by simp
  then have "n div 100000 mod 10 = n div 10 div 10 div 10 div 10 div 10" by (simp add: div_100000)
  then show ?thesis by (simp add: div_100 div_1000 div_10000)
qed

lemma parse_pad2: "n < 100 \<Longrightarrow> parse_nat 0 (pad2 n) = Some n"
  by (simp add: pad2_def digit_val_digit_char)

lemma parse_pad4: "n < 10000 \<Longrightarrow> parse_nat 0 (pad4 n) = Some n"
  using four_digits [of n] by (simp add: pad4_def digit_val_digit_char)

lemma parse_pad6: "n < 1000000 \<Longrightarrow> parse_nat 0 (pad6 n) = Some n"
  using six_digits [of n] by (simp add: pad6_def digit_val_digit_char)

lemma days_in_month_le: "days_in_month y m \<le> 31"
  by (simp add: days_in_month_def)

lemma fromisoformat_isoformat:
  assumes "valid_datetime dt"
  shows "fromisoformat (isoformat dt) = Inr dt"
proof (cases dt)
  case (Datetime y m d h mi s us)
  from assms Datetime days_in_month_le [of y m]
  have b: "y < 10000" "m < 100" "d < 100" "h < 100" "mi < 100" "s < 100" "us < 1000000"
    by simp_all
  obtain y1 y2 y3 y4 where y: "pad4 y = [y1, y2, y3, y4]" by (simp add: pad4_def)
  obtain m1 m2 where m: "pad2 m = [m1, m2]" by (simp add: pad2_def)
  obtain d1 d2 where d: "pad2 d = [d1, d2]" by (simp add: pad2_def)
  obtain h1 h2 where h: "pad2 h = [h1, h2]" by (simp add: pad2_def)
  obtain i1 i2 where i: "pad2 mi = [i1, i2]" by (simp add: pad2_def)
  obtain s1 s2 where s: "pad2 s = [s1, s2]" by (simp add: pad2_def)
  obtain u1 u2 u3 u4 u5 u6 where u: "pad6 us = [u1, u2, u3, u4, u5, u6]" by (simp add: pad6_def)
  have py: "parse_nat 0 [y1, y2, y3, y4] = Some y" using parse_pad4 [OF b(1)] y by simp
  have pm: "parse_nat 0 [m1, m2] = Some m" using parse_pad2 [OF b(2)] m by simp
  have pd: "parse_nat 0 [d1, d2] = Some d" using parse_pad2 [OF b(3)] d by simp
  have ph: "parse_nat 0 [h1, h2] = Some h" using parse_pad2 [OF b(4)] h by simp
  have pi: "parse_nat 0 [i1, i2] = Some mi" using parse_pad2 [OF b(5)] i by simp
  have ps: "parse_nat 0 [s1, s2] = Some s" using parse_pad2 [OF b(6)] s by simp
  have pu: "parse_nat 0 [u1, u2, u3, u4, u5, u6] = Some us" using parse_pad6 [OF b(7)] u by simp
  show ?thesis
  proof (cases "us = 0")
    case True
    have iso: "isoformat dt = [y1, y2, y3, y4, CHR ''-'', m1, m2, CHR ''-'', d1, d2, CHR ''T'',
                 h1, h2, CHR '':'', i1, i2, CHR '':'', s1, s2]"
      using Datetime True y m d h i s by simp
    have v: "valid_datetime (Datetime y m d h mi s 0)" using assms Datetime True by simp
    show ?thesis
      unfolding iso fromisoformat_def
      using v by (simp del: parse_nat.simps valid_datetime.simps
          add: parse_nat.simps(1) py pm pd ph pi ps Datetime True)
  next
    case False
    have iso: "isoformat dt = [y1, y2, y3, y4, CHR ''-'', m1, m2, CHR ''-'', d1, d2, CHR ''T'',
                 h1, h2, CHR '':'', i1, i2, CHR '':'', s1, s2, CHR ''.'', u1, u2, u3, u4, u5, u6]"
      using Datetime False y m d h i s u by simp
    have v: "valid_datetime (Datetime y m d h mi s us)" using assms Datetime by simp
    show ?thesis
      unfolding iso fromisoformat_def
      using v by (simp del: parse_nat.simps valid_datetime.simps add: py pm pd ph pi ps pu Datetime)
  qed
qed

lemma fromisoformat_valid: "fromisoformat s = Inr d \<Longrightarrow> valid_datetime d"
  by (auto simp: fromisoformat_def Let_def split: if_splits option.splits)

lemma isoformat_nonempty: "isoformat d \<noteq> []"
  by (cases d) (simp add: pad4_def)

subsection \<open>Loading what was saved\<close>

lemma Priority_of_value: "Priority_of (JStr (Priority_value p)) = Inr p"
  by (cases p) (simp_all add: Priority_of_def)

lemma Status_of_value: "Status_of (JStr (Status_value p)) = Inr p"
  by (cases p) (simp_all add: Status_of_def)

lemma as_strs_map_JStr: "as_strs (map JStr l) = Some l"
  by (induction l) simp_all

lemma load_task_task_record:
  assumes "valid_task t"
  shows "load_task (task_record t) = Inr (Some t)"
proof -
  have c: "fromisoformat (isoformat (created_at t)) = Inr (created_at t)"
    and u: "fromisoformat (isoformat (updated_at t)) = Inr (updated_at t)"
    using assms by (simp_all add: valid_task_def fromisoformat_isoformat)
  show ?thesis
  proof (cases "due_date t")
    case None
    then show ?thesis
      by (simp add: load_task_def task_record_def and_then_def c u Priority_of_value
          Status_of_value as_strs_map_JStr)
  next
    case (Some d)
    then have "fromisoformat (isoformat d) = Inr d"
      using assms by (simp add: valid_task_def valid_due_def fromisoformat_isoformat)
    with Some show ?thesis
      by (simp add: load_task_def task_record_def and_then_def c u Priority_of_value
          Status_of_value as_strs_map_JStr isoformat_nonempty)
  qed
qed

lemma load_records_saved:
  assumes "distinct (map fst (acc @ d))" and "list_all entry_ok d"
  shows "load_records (map task_record (dict_values d)) acc typed = Inr (acc @ d, typed)"
  using assms
proof (induction d arbitrary: acc)
  case Nil
  then show ?case by (simp add: dict_values_def)
next
  case (Cons kv d)
  obtain k t where kv: "kv = (k, t)" by (cases kv)
  from Cons.prems kv have head: "entry_ok (k, t)" and rest: "list_all entry_ok d"
    by simp_all
  from head have ok: "task_id t = k" "valid_task t"
    by (simp_all add: entry_ok_def)
  from Cons.prems(1) kv have fresh: "k \<notin> fst ` set acc" by auto
  have step: "dict_set acc (task_id t) t = acc @ [(k, t)]"
    using fresh ok(1) by (simp add: dict_set_absent)
  from Cons.prems(1) kv have "distinct (map fst ((acc @ [(k, t)]) @ d))" by simp
  from Cons.IH [OF this rest]
  show ?case
    using kv step by (simp add: dict_values_def load_task_task_record [OF ok(2)])
qed

lemma save_load:
  assumes "store_inv self"
  shows "TaskStore_init (storage_file (save_to_file self)) = Returns (save_to_file self)"
proof -
  have "list_all entry_ok (tasks self)" and "distinct (map fst ([] @ tasks self))"
    using assms by (simp_all add: store_inv_def)
  from load_records_saved [OF this(2) this(1), of True]
  show ?thesis
    by (simp add: TaskStore_init_def load_from_file_def load_document_def json_load_def
        and_then_def save_to_file_def)
qed

subsection \<open>The invariant of reachable stores\<close>

lemma entry_ok_dict_set:
  assumes "list_all entry_ok d" and "entry_ok (k, v)"
  shows "list_all entry_ok (dict_set d k v)"
  using assms by (induction d) auto

lemma py_fromisoformat_valid: "py_fromisoformat v = Inr d \<Longrightarrow> valid_datetime d"
  by (cases v) (simp_all add: fromisoformat_valid)

lemma load_task_valid:
  assumes "load_task r = Inr (Some t)"
  shows "valid_task t"
  using assms
  by (auto simp: load_task_def and_then_def valid_task_def valid_due_def
      split: sum.splits if_splits option.splits dest: py_fromisoformat_valid)

lemma load_records_inv:
  assumes "load_records rs acc typed = Inr (d, ok)"
    and "distinct (map fst acc)" and "list_all entry_ok acc"
  shows "distinct (map fst d) \<and> list_all entry_ok d"
  using assms
proof (induction rs arbitrary: acc typed)
  case Nil
  then show ?case by simp
next
  case (Cons r rs)
  show ?case
  proof (cases "load_task r")
    case (Inl e)
    with Cons.prems(1) show ?thesis by simp
  next
    case (Inr res)
    show ?thesis
    proof (cases res)
      case None
      with Inr Cons.prems have "load_records rs acc False = Inr (d, ok)" by simp
      from Cons.IH [OF this Cons.prems(2,3)] show ?thesis .
    next
      case (Some t)
      with Inr Cons.prems
      have run: "load_records rs (dict_set acc (task_id t) t) typed = Inr (d, ok)" by simp
      have "entry_ok (task_id t, t)"
        using load_task_valid [of r t] Inr Some by (simp add: entry_ok_def)
      then have "list_all entry_ok (dict_set acc (task_id t) t)"
        using Cons.prems(3) by (simp add: entry_ok_dict_set)
      from Cons.IH [OF run distinct_dict_set [OF Cons.prems(2)] this] show ?thesis .
    qed
  qed
qed

lemma store_inv_save_to_file [simp]: "store_inv (save_to_file s) = store_inv s"
  by (simp add: store_inv_def)

lemma store_inv_init:
  assumes "TaskStore_init f = Returns self"
  shows "store_inv self"
proof (cases f)
  case None
  with assms show ?thesis
    by (auto simp: TaskStore_init_def load_from_file_def store_inv_def)
next
  case (Some c)
  let ?s0 = "\<lparr>tasks = [], next_id = 1, storage_file = Some c\<rparr>"
  show ?thesis
  proof (cases "load_document ?s0 c")
    case (Inl e)
    with assms Some show ?thesis
      by (auto simp: TaskStore_init_def load_from_file_def store_inv_def split: if_splits)
  next
    case (Inr r)
    with assms Some have r: "r = Some self"
      by (auto simp: TaskStore_init_def load_from_file_def split: option.splits)
    from Inr r obtain recs d ok n where
      "load_records recs [] True = Inr (d, ok)" and "self = ?s0\<lparr>tasks := d, next_id := n\<rparr>"
      by (auto simp: load_document_def and_then_def split: sum.splits option.splits if_splits)
    with load_records_inv [of recs "[]" True d ok] show ?thesis
      by (simp add: store_inv_def)
  qed
qed

lemma dict_get_entry: "dict_get d k = Some v \<Longrightarrow> (k, v) \<in> set d"
  by (simp add: dict_get_def map_of_SomeD)

lemma store_inv_add_task:
  assumes "store_inv self" "valid_datetime now1" "valid_datetime now2" "valid_due du"
  shows "store_inv (snd (add_task self t d p tg du now1 now2))"
  using assms
  by (simp add: add_task_def Let_def store_inv_def distinct_dict_set entry_ok_dict_set
      entry_ok_def valid_task_def)

lemma store_inv_update_task:
  assumes "store_inv self" "valid_datetime now" "valid_due du"
  shows "store_inv (snd (update_task self i t d p s du clr tg now))"
proof (cases "dict_get (tasks self) i")
  case None
  with assms show ?thesis by (simp add: update_task_def)
next
  case (Some task)
  from dict_get_entry [OF Some] assms(1) have "entry_ok (i, task)"
    by (auto simp: store_inv_def list_all_iff)
  then have ok: "task_id task = i" "valid_task task"
    by (simp_all add: entry_ok_def)
  show ?thesis
    using Some assms ok
    by (auto simp: update_task_def Let_def store_inv_def distinct_dict_set valid_task_def
        valid_due_def entry_ok_def intro!: entry_ok_dict_set split: option.splits)
qed

lemma store_inv_delete_task: "store_inv self \<Longrightarrow> store_inv (snd (delete_task self i))"
  by (auto simp: delete_task_def store_inv_def dict_del_def distinct_map_filter list_all_iff)

lemma store_inv_clear_all: "store_inv (snd (clear_all self))"
  by (simp add: clear_all_def store_inv_def)

lemma reachable_store_inv: "reachable self \<Longrightarrow> store_inv self"
  by (induction rule: reachable.induct)
    (simp_all add: store_inv_init store_inv_add_task store_inv_update_task
      store_inv_delete_task store_inv_clear_all)

subsection \<open>The example stores, evaluated\<close>

lemma demo_store_tasks:
  "tasks demo_store =
     [(1, demo_task),
      (2, \<lparr>task_id = 2, title = ''Email team'', description = [], priority = MEDIUM,
            status = PENDING, due_date = None, created_at = clock 1, updated_at = clock 1,
            tags = [''mail'']\<rparr>)]"
  by (simp add: demo_store_def demo_task_def fresh_store_def add_task_def Let_def)

lemma demo_store_next_id: "next_id demo_store = 3"
  by (simp add: demo_store_def fresh_store_def add_task_def Let_def)

lemma get_task_demo: "get_task demo_store 1 = Some demo_task"
  by (simp add: get_task_def dict_get_def demo_store_tasks)

lemma init_absent_file: "TaskStore_init None = Returns fresh_store"
  by (simp add: TaskStore_init_def load_from_file_def fresh_store_def)

lemma valid_clock: "n < 60 \<Longrightarrow> valid_datetime (clock n)"
  by (simp add: clock_def days_in_month_def)

lemma reachable_demo_store: "reachable demo_store"
  unfolding demo_store_def
  by (intro reachable.add reachable.init [OF init_absent_file])
    (simp_all add: valid_clock valid_due_def days_in_month_def)

subsection \<open>Create\<close>

text \<open>
  Claim C1 says that \<open>add_task\<close> with an empty title fails with a ValidationError and
  has no side effect. The store has no validation and no such exception: on a fresh store
  the call with the empty title changes the collection, the counter and the backing file.
\<close>

theorem add_task_empty_title_counterexample:
  "\<not> (tasks (snd (add_task fresh_store [] [] MEDIUM None None (clock 0) (clock 0))) = tasks fresh_store
      \<and> next_id (snd (add_task fresh_store [] [] MEDIUM None None (clock 0) (clock 0))) = next_id fresh_store
      \<and> storage_file (snd (add_task fresh_store [] [] MEDIUM None None (clock 0) (clock 0))) = storage_file fresh_store)"
  by (simp add: add_task_def Let_def fresh_store_def)

text \<open>
  Claim C1 as the store behaves: \<open>add_task\<close> with an empty title succeeds like any other
  create. The returned task has the empty title and the current counter value as id, it is
  stored under that id, the counter is incremented, and the backing file holds the
  document of the new collection and counter.
\<close>

theorem add_task_empty_title_stored:
  "title (fst (add_task self [] d p tg du now1 now2)) = []
   \<and> task_id (fst (add_task self [] d p tg du now1 now2)) = next_id self
   \<and> get_task (snd (add_task self [] d p tg du now1 now2)) (next_id self)
       = Some (fst (add_task self [] d p tg du now1 now2))
   \<and> next_id (snd (add_task self [] d p tg du now1 now2)) = next_id self + 1
   \<and> storage_file (snd (add_task self [] d p tg du now1 now2)) =
       Some (Document (JDict
         [(''next_id'', JInt (next_id self + 1)),
          (''tasks'', JList (map task_record
             (get_all_tasks (snd (add_task self [] d p tg du now1 now2)))))]))"
  by (simp add: add_task_def Let_def get_task_def get_all_tasks_def save_to_file_def)

theorem add_task_empty_title_stored_witness:
  "get_all_tasks (snd (add_task fresh_store [] [] MEDIUM None None (clock 0) (clock 0)))
     = [\<lparr>task_id = 1, title = [], description = [], priority = MEDIUM, status = PENDING,
         due_date = None, created_at = clock 0, updated_at = clock 0, tags = []\<rparr>]
   \<and> next_id (snd (add_task fresh_store [] [] MEDIUM None None (clock 0) (clock 0))) = 2"
  using add_task_empty_title_stored [of fresh_store "[]" MEDIUM None None "clock 0" "clock 0"]
  by (simp add: add_task_def Let_def fresh_store_def get_all_tasks_def dict_values_def)

subsection \<open>Update\<close>

text \<open>
  Claim C5: for a task present in the store, \<open>update_task\<close> with only a new status
  leaves title, description, priority, due date and tags (and id and creation time)
  unchanged; the status becomes the given one and \<open>updated_at\<close> the clock reading.
\<close>

theorem update_task_status_only:
  assumes "get_task self i = Some task"
  shows "\<exists>task'. fst (update_task self i None None None (Some x) None False None now) = Some task'
           \<and> get_task (snd (update_task self i None None None (Some x) None False None now)) i = Some task'
           \<and> title task' = title task \<and> description task' = description task
           \<and> priority task' = priority task \<and> due_date task' = due_date task
           \<and> tags task' = tags task \<and> task_id task' = task_id task
           \<and> created_at task' = created_at task
           \<and> status task' = x \<and> updated_at task' = now"
  using assms by (simp add: update_task_def get_task_def Let_def)

theorem update_task_status_only_witness:
  "get_task demo_store 1 = Some demo_task
   \<and> (\<exists>task'. fst (update_task demo_store 1 None None None (Some IN_PROGRESS) None False None (clock 5)) = Some task'
        \<and> get_task (snd (update_task demo_store 1 None None None (Some IN_PROGRESS) None False None (clock 5))) 1 = Some task'
        \<and> title task' = ''Write report'' \<and> description task' = [] \<and> priority task' = HIGH
        \<and> due_date task' = Some (Datetime 2024 3 9 17 0 0 0) \<and> tags task' = []
        \<and> status task' = IN_PROGRESS \<and> updated_at task' = clock 5)"
  using update_task_status_only [OF get_task_demo, of IN_PROGRESS "clock 5"] get_task_demo
  by (auto simp: demo_task_def)

text \<open>
  Claim C6: for a task present in the store and every due date \<open>D\<close>, \<open>update_task\<close> with
  both \<open>due_date = D\<close> and the clear flag set leaves the task without a due date, whatever
  the other arguments are.
\<close>

theorem update_task_clear_due_date_wins:
  assumes "get_task self i = Some task"
  shows "\<exists>task'. fst (update_task self i t d p s (Some D) True tg now) = Some task'
           \<and> get_task (snd (update_task self i t d p s (Some D) True tg now)) i = Some task'
           \<and> due_date task' = None"
  using assms by (simp add: update_task_def get_task_def Let_def split: option.split)

theorem update_task_clear_due_date_wins_witness:
  "get_task demo_store 1 = Some demo_task \<and> due_date demo_task \<noteq> None
   \<and> (\<exists>task'. fst (update_task demo_store 1 None None None None (Some (Datetime 2024 4 1 0 0 0 0)) True None (clock 5)) = Some task'
        \<and> get_task (snd (update_task demo_store 1 None None None None (Some (Datetime 2024 4 1 0 0 0 0)) True None (clock 5))) 1 = Some task'
        \<and> due_date task' = None)"
  using update_task_clear_due_date_wins [OF get_task_demo, of None None None None "Datetime 2024 4 1 0 0 0 0" None "clock 5"]
    get_task_demo
  by (auto simp: demo_task_def)

text \<open>
  Claim C9 says that \<open>update_task\<close> with an empty title leaves the stored title as it
  was. In the example store the title of task 1 is ``Write report'' before the call and
  empty after it.
\<close>

theorem update_task_empty_title_counterexample:
  "map_option title (get_task demo_store 1) = Some ''Write report''
   \<and> map_option title
       (get_task (snd (update_task demo_store 1 (Some []) None None None None False None (clock 5))) 1)
     = Some []"
proof -
  have "dict_get (tasks demo_store) 1 = Some demo_task"
    using get_task_demo by (simp add: get_task_def)
  then show ?thesis
    by (simp add: update_task_def Let_def get_task_def demo_task_def)
qed

text \<open>
  Claim C9 as the store behaves: a title that is provided (not None) is assigned without
  any check, so the empty string replaces the stored title like any other value, and
  \<open>updated_at\<close> is refreshed.
\<close>

theorem update_task_title_overwrites:
  assumes "get_task self i = Some task"
  shows "\<exists>task'. fst (update_task self i (Some v) None None None None False None now) = Some task'
           \<and> get_task (snd (update_task self i (Some v) None None None None False None now)) i = Some task'
           \<and> title task' = v \<and> updated_at task' = now"
  using assms by (simp add: update_task_def get_task_def Let_def)

theorem update_task_title_overwrites_witness:
  "get_task demo_store 1 = Some demo_task \<and> title demo_task = ''Write report''
   \<and> (\<exists>task'. fst (update_task demo_store 1 (Some []) None None None None False None (clock 5)) = Some task'
         \<and> get_task (snd (update_task demo_store 1 (Some []) None None None None False None (clock 5))) 1 = Some task'
         \<and> title task' = [] \<and> updated_at task' = clock 5)"
  using update_task_title_overwrites [OF get_task_demo, of "[]" "clock 5"] get_task_demo
  by (auto simp: demo_task_def)

text \<open>
  Claim C10: for an id present in the store, \<open>update_task\<close> with no field argument and
  the clear flag False returns the task with only \<open>updated_at\<close> set to the clock reading,
  stores it, and writes the document of the collection to the backing file again.
\<close>

theorem update_task_no_fields_touches:
  assumes "get_task self i = Some task"
  shows "fst (update_task self i None None None None None False None now) = Some (task\<lparr>updated_at := now\<rparr>)
       \<and> get_task (snd (update_task self i None None None None None False None now)) i = Some (task\<lparr>updated_at := now\<rparr>)
       \<and> storage_file (snd (update_task self i None None None None None False None now)) =
           Some (Document (JDict
             [(''next_id'', JInt (next_id self)),
              (''tasks'', JList (map task_record
                 (get_all_tasks (snd (update_task self i None None None None None False None now)))))]))"
  using assms by (simp add: update_task_def get_task_def get_all_tasks_def Let_def save_to_file_def)

theorem update_task_no_fields_touches_witness:
  "get_task demo_store 1 = Some demo_task
   \<and> fst (update_task demo_store 1 None None None None None False None (clock 5)) = Some (demo_task\<lparr>updated_at := clock 5\<rparr>)
   \<and> updated_at demo_task \<noteq> clock 5"
  using update_task_no_fields_touches [OF get_task_demo, of "clock 5"] get_task_demo
  by (simp add: demo_task_def clock_def)

subsection \<open>Absent ids\<close>

text \<open>
  Claim C8: for an id that is not a key of the collection, \<open>get_task\<close> returns None,
  \<open>update_task\<close> returns None and \<open>delete_task\<close> returns False, each leaving the store
  (collection, counter and backing file) as it was; a second \<open>delete_task\<close> returns False
  again. The operations return values on this path and have no exception to raise.
\<close>

theorem absent_id_not_found:
  assumes "i \<notin> set (map fst (tasks self))"
  shows "get_task self i = None
       \<and> update_task self i t d p s du clr tg now = (None, self)
       \<and> delete_task self i = (False, self)
       \<and> delete_task (snd (delete_task self i)) i = (False, self)"
proof -
  have "dict_get (tasks self) i = None"
    using assms by (simp add: dict_get_None_iff)
  then show ?thesis
    using assms by (simp add: get_task_def update_task_def delete_task_def)
qed

theorem absent_id_not_found_witness:
  "7 \<notin> set (map fst (tasks demo_store))
   \<and> get_task demo_store 7 = None
   \<and> update_task demo_store 7 (Some ''x'') None None (Some COMPLETED) None False None (clock 5) = (None, demo_store)
   \<and> delete_task demo_store 7 = (False, demo_store)
   \<and> delete_task (snd (delete_task demo_store 7)) 7 = (False, demo_store)"
proof -
  have h: "7 \<notin> set (map fst (tasks demo_store))" by (simp add: demo_store_tasks)
  show ?thesis
    using h absent_id_not_found [OF h, of "Some ''x''" None None "Some COMPLETED" None False None "clock 5"]
    by simp
qed

subsection \<open>Persistence round trip\<close>

text \<open>
  Claim C2: for every store reachable by the constructor and the public operations,
  saving the collection and the counter to the backing file and constructing a new store
  from that file returns a store with the same items (same ids, same value of every
  field, same order) and the same next-id counter.
\<close>

theorem save_then_load_round_trip:
  assumes "reachable self"
  shows "\<exists>self'. TaskStore_init (storage_file (save_to_file self)) = Returns self'
           \<and> tasks self' = tasks self \<and> next_id self' = next_id self
           \<and> get_all_tasks self' = get_all_tasks self"
  using save_load [OF reachable_store_inv [OF assms]]
  by (simp add: get_all_tasks_def)

theorem save_then_load_round_trip_witness:
  "reachable demo_store
   \<and> (\<exists>self'. TaskStore_init (storage_file (save_to_file demo_store)) = Returns self'
         \<and> tasks self' =
             [(1, demo_task),
              (2, \<lparr>task_id = 2, title = ''Email team'', description = [], priority = MEDIUM,
                    status = PENDING, due_date = None, created_at = clock 1,
                    updated_at = clock 1, tags = [''mail'']\<rparr>)]
         \<and> next_id self' = 3)"
  using save_then_load_round_trip [OF reachable_demo_store] reachable_demo_store
  by (auto simp: demo_store_tasks demo_store_next_id)

subsection \<open>Identifiers\<close>

lemma map_upt_Suc_shift: "map f [0..<Suc n] = f 0 # map (\<lambda>k. f (Suc k)) [0..<n]"
  by (simp add: upt_conv_Cons map_Suc_upt [symmetric] del: upt_Suc)

lemma next_id_add_task [simp]:
  "next_id (snd (add_task self t d p tg du n1 n2)) = next_id self + 1"
  by (simp add: add_task_def Let_def)

lemma task_id_add_task [simp]:
  "task_id (fst (add_task self t d p tg du n1 n2)) = next_id self"
  by (simp add: add_task_def Let_def)

lemma next_id_delete_task [simp]: "next_id (snd (delete_task self i)) = next_id self"
  by (simp add: delete_task_def)

lemma next_id_clear_all [simp]: "next_id (snd (clear_all self)) = next_id self"
  by (simp add: clear_all_def)

lemma run_calls_ids:
  "fst (run_calls self calls) = map (\<lambda>k. next_id self + int k) [0..<length (filter is_add calls)]
   \<and> next_id (snd (run_calls self calls)) = next_id self + int (length (filter is_add calls))"
proof (induction self calls rule: run_calls.induct)
  case (1 self)
  show ?case by simp
next
  case (2 self t d p tg du n1 n2 calls)
  obtain task self' where a: "add_task self t d p tg du n1 n2 = (task, self')"
    by (cases "add_task self t d p tg du n1 n2")
  obtain ids final where r: "run_calls self' calls = (ids, final)"
    by (cases "run_calls self' calls")
  from a have tid: "task_id task = next_id self" and nid: "next_id self' = next_id self + 1"
    using task_id_add_task [of self t d p tg du n1 n2] next_id_add_task [of self t d p tg du n1 n2]
    by simp_all
  from "2.IH" [OF a [symmetric]] r nid
  have ih: "ids = map (\<lambda>k. next_id self + 1 + int k) [0..<length (filter is_add calls)]"
    and fin: "next_id final = next_id self + 1 + int (length (filter is_add calls))"
    by simp_all
  have "map (\<lambda>k. next_id self + int k) [0..<Suc (length (filter is_add calls))]
        = next_id self # ids"
    unfolding map_upt_Suc_shift ih by (simp add: add.assoc add.commute)
  then show ?case
    using a r tid fin by simp
next
  case (3 self i calls)
  then show ?case by simp
next
  case (4 self calls)
  then show ?case by simp
qed

lemma set_dict_set_subset: "set (dict_set d k v) \<subseteq> insert (k, v) (set d)"
  by (induction d) (auto split: if_splits)

lemma keys_below_add_task:
  assumes "keys_below_counter self"
  shows "keys_below_counter (snd (add_task self t d p tg du n1 n2))"
  using assms set_dict_set_subset [of "tasks self" "next_id self"]
  by (fastforce simp: keys_below_counter_def add_task_def Let_def list_all_iff)

lemma keys_below_delete_task:
  "keys_below_counter self \<Longrightarrow> keys_below_counter (snd (delete_task self i))"
  by (auto simp: keys_below_counter_def delete_task_def dict_del_def list_all_iff)

lemma keys_below_clear_all: "keys_below_counter (snd (clear_all self))"
  by (simp add: keys_below_counter_def clear_all_def)

lemma run_calls_keys_below:
  "keys_below_counter self \<Longrightarrow> keys_below_counter (snd (run_calls self calls))"
proof (induction self calls rule: run_calls.induct)
  case (1 self)
  then show ?case by simp
next
  case (2 self t d p tg du n1 n2 calls)
  obtain task self' where a: "add_task self t d p tg du n1 n2 = (task, self')"
    by (cases "add_task self t d p tg du n1 n2")
  obtain ids final where r: "run_calls self' calls = (ids, final)"
    by (cases "run_calls self' calls")
  from keys_below_add_task [OF "2.prems", of t d p tg du n1 n2] a
  have "keys_below_counter self'" by simp
  from "2.IH" [OF a [symmetric] this] show ?case
    using a r by simp
next
  case (3 self i calls)
  then show ?case by (simp add: keys_below_delete_task)
next
  case (4 self calls)
  then show ?case by (simp add: keys_below_clear_all)
qed

lemma init_counterless_file: "TaskStore_init counterless_file = Returns counterless_store"
  by (simp add: TaskStore_init_def load_from_file_def load_document_def json_load_def
      and_then_def counterless_file_def counterless_store_def sample_record_def load_task_def
      Priority_of_def Status_of_def fromisoformat_def digit_val_def days_in_month_def
      is_leap_def)

text \<open>
  Claim C3 says that an id is never reused after the task holding it is deleted, for every
  sequence of calls. The constructor takes the counter from the file, with 1 when the key
  \<^verbatim>\<open>next_id\<close> is missing, and does not compare it with the ids it loads: on the store
  loaded from a file with task 1 and no counter, deleting task 1 and creating a task hands
  out id 1 again.
\<close>

theorem id_reused_after_delete_counterexample:
  "TaskStore_init counterless_file = Returns counterless_store
   \<and> map task_id (get_all_tasks counterless_store) = [1]
   \<and> fst (delete_task counterless_store 1) = True
   \<and> fst (run_calls counterless_store
        [Delete_task 1, Add_task ''b'' [] LOW None None (clock 1) (clock 1)]) = [1]"
  by (simp add: init_counterless_file)
    (simp add: counterless_store_def get_all_tasks_def dict_values_def delete_task_def
      dict_del_def add_task_def Let_def)

lemma started_fresh_reachable: "started_fresh self \<Longrightarrow> reachable self"
  by (induction rule: started_fresh.induct) (auto intro: reachable.intros)

lemma save_to_file_idem [simp]: "save_to_file (save_to_file s) = save_to_file s"
  by (simp add: save_to_file_def)

lemma started_fresh_file_in_step:
  "started_fresh self \<Longrightarrow> self = fresh_store \<or> save_to_file self = self"
proof (induction rule: started_fresh.induct)
  case (first self)
  then show ?case by (simp add: init_absent_file)
next
  case (add self now1 now2 du t d p tg)
  show ?case by (simp add: add_task_def Let_def)
next
  case (update self now du i t d p s clr tg)
  then show ?case
    by (cases "dict_get (tasks self) i") (auto simp: update_task_def Let_def)
next
  case (delete self i)
  then show ?case by (auto simp: delete_task_def)
next
  case (clear self)
  show ?case by (simp add: clear_all_def)
next
  case (restart self self')
  from restart.IH show ?case
  proof
    assume "self = fresh_store"
    with restart.hyps(2) show ?thesis
      by (simp add: fresh_store_def init_absent_file [unfolded fresh_store_def])
  next
    assume saved: "save_to_file self = self"
    have "TaskStore_init (storage_file (save_to_file self)) = Returns (save_to_file self)"
      using save_load [OF reachable_store_inv [OF started_fresh_reachable [OF restart.hyps(1)]]] .
    with saved restart.hyps(2) have "self' = self" by simp
    with saved show ?thesis by simp
  qed
qed

lemma restart_same_store:
  assumes "started_fresh self" and "TaskStore_init (storage_file self) = Returns self'"
  shows "self' = self"
  using started_fresh_file_in_step [OF assms(1)]
proof
  assume "self = fresh_store"
  with assms(2) show ?thesis
    by (simp add: fresh_store_def init_absent_file [unfolded fresh_store_def])
next
  assume saved: "save_to_file self = self"
  have "TaskStore_init (storage_file (save_to_file self)) = Returns (save_to_file self)"
    using save_load [OF reachable_store_inv [OF started_fresh_reachable [OF assms(1)]]] .
  with saved assms(2) show ?thesis by simp
qed

lemma keys_below_update_task:
  assumes "keys_below_counter self"
  shows "keys_below_counter (snd (update_task self i t d p s du clr tg now))"
proof (cases "dict_get (tasks self) i")
  case None
  with assms show ?thesis by (simp add: update_task_def)
next
  case (Some task)
  from dict_get_entry [OF Some] assms have "i < next_id self"
    by (auto simp: keys_below_counter_def list_all_iff)
  then show ?thesis
    using Some assms set_dict_set_subset [of "tasks self" i]
    by (fastforce simp: keys_below_counter_def update_task_def Let_def list_all_iff)
qed

lemma started_fresh_keys_below: "started_fresh self \<Longrightarrow> keys_below_counter self"
proof (induction rule: started_fresh.induct)
  case (first self)
  then show ?case by (auto simp: init_absent_file fresh_store_def keys_below_counter_def)
next
  case (restart self self')
  with restart_same_store [OF restart.hyps] show ?case by simp
qed (simp_all add: keys_below_add_task keys_below_update_task keys_below_delete_task
      keys_below_clear_all)

lemma run_calls_ids_unused:
  assumes "keys_below_counter self"
  shows "set (fst (run_calls self calls)) \<inter> fst ` set (tasks self) = {}"
proof -
  have "k \<in> set (fst (run_calls self calls)) \<Longrightarrow> next_id self \<le> k" for k
    using run_calls_ids [of self calls] by auto
  moreover have "k \<in> fst ` set (tasks self) \<Longrightarrow> k < next_id self" for k
    using assms by (auto simp: keys_below_counter_def list_all_iff)
  ultimately show ?thesis by fastforce
qed

text \<open>
  Claim C3 as the store behaves. For every store and every sequence of \<open>add_task\<close>,
  \<open>delete_task\<close> and \<open>clear_all\<close> calls, the ids assigned by the successive creates are the
  initial counter value, that value plus 1, and so on, one step per create whatever
  deletes and clears lie between, so no id is assigned twice; the counter ends at its
  initial value plus the number of creates; \<open>delete_task\<close> and \<open>clear_all\<close> leave the
  counter as it is; a store constructed without a backing file starts at 1. Every store
  of a run that began without a backing file (operations and restarts from its own file)
  has all its keys below the counter; and from a store whose keys lie below the counter,
  no create is given an id that the collection holds or held at the start, and the keys
  stay below the counter, so the id of a deleted task is never assigned again.
\<close>

theorem ids_increase_by_one:
  "fst (run_calls self calls)
     = map (\<lambda>k. next_id self + int k) [0..<length (filter is_add calls)]
   \<and> distinct (fst (run_calls self calls))
   \<and> next_id (snd (run_calls self calls)) = next_id self + int (length (filter is_add calls))
   \<and> next_id (snd (delete_task self i)) = next_id self
   \<and> next_id (snd (clear_all self)) = next_id self
   \<and> TaskStore_init None = Returns fresh_store \<and> next_id fresh_store = 1
   \<and> (started_fresh self \<longrightarrow> keys_below_counter self)
   \<and> (keys_below_counter self \<longrightarrow>
         set (fst (run_calls self calls)) \<inter> fst ` set (tasks self) = {}
         \<and> keys_below_counter (snd (run_calls self calls)))"
proof -
  have "distinct (map (\<lambda>k. next_id self + int k) [0..<length (filter is_add calls)])"
    by (simp add: distinct_map inj_on_def)
  then show ?thesis
    using run_calls_ids [of self calls] run_calls_keys_below [of self calls]
      run_calls_ids_unused [of self calls] started_fresh_keys_below [of self]
    by (simp add: init_absent_file fresh_store_def)
qed

lemma started_fresh_demo_store: "started_fresh demo_store"
  unfolding demo_store_def
  by (intro started_fresh.add started_fresh.first [OF init_absent_file])
    (simp_all add: valid_clock valid_due_def days_in_month_def)

theorem ids_increase_by_one_witness:
  "started_fresh demo_store \<and> keys_below_counter demo_store
   \<and> map fst (tasks demo_store) = [1, 2] \<and> next_id demo_store = 3
   \<and> fst (run_calls demo_store
      [Delete_task 2,
       Add_task ''c'' [] LOW None None (clock 2) (clock 2),
       Clear_all,
       Add_task ''d'' [] LOW None None (clock 3) (clock 3)]) = [3, 4]
   \<and> next_id (snd (run_calls demo_store
      [Delete_task 2,
       Add_task ''c'' [] LOW None None (clock 2) (clock 2),
       Clear_all,
       Add_task ''d'' [] LOW None None (clock 3) (clock 3)])) = 5
   \<and> keys_below_counter (snd (run_calls demo_store
      [Delete_task 2,
       Add_task ''c'' [] LOW None None (clock 2) (clock 2),
       Clear_all,
       Add_task ''d'' [] LOW None None (clock 3) (clock 3)]))"
  using ids_increase_by_one [of demo_store
      "[Delete_task 2,
       Add_task ''c'' [] LOW None None (clock 2) (clock 2),
       Clear_all,
       Add_task ''d'' [] LOW None None (clock 3) (clock 3)]" 0]
    started_fresh_demo_store
  by (simp add: demo_store_tasks demo_store_next_id upt_rec)

subsection \<open>Overdue\<close>

lemma date_lt_next_day: "date_lt d (next_day d)"
  by (cases d) simp

lemma date_lt_asym: "date_lt a b \<Longrightarrow> \<not> date_lt b a"
  by (cases a; cases b) auto

text \<open>
  Claim C7: \<open>get_overdue_tasks\<close> returns, in collection order, exactly the tasks that
  have a due date whose date component is strictly before today and whose status is not
  COMPLETED. A stored task due the day before today with status PENDING is returned; a
  task due the day before today with status COMPLETED is not; a task due the day after
  today is not.
\<close>

theorem get_overdue_tasks_exact:
  "get_overdue_tasks self today
     = filter (\<lambda>t. \<exists>d. due_date t = Some d \<and> date_lt (date_of d) today \<and> status t \<noteq> COMPLETED)
         (get_all_tasks self)
   \<and> (t \<in> set (get_all_tasks self) \<and> due_date t = Some d \<and> next_day (date_of d) = today
        \<and> status t = PENDING \<longrightarrow> t \<in> set (get_overdue_tasks self today))
   \<and> (due_date t = Some d \<and> next_day (date_of d) = today \<and> status t = COMPLETED
        \<longrightarrow> t \<notin> set (get_overdue_tasks self today))
   \<and> (due_date t = Some d \<and> date_of d = next_day today
        \<longrightarrow> t \<notin> set (get_overdue_tasks self today))"
proof -
  have p: "(case due_date x of None \<Rightarrow> False
            | Some d \<Rightarrow> date_lt (date_of d) today \<and> status x \<noteq> COMPLETED)
          = (\<exists>d. due_date x = Some d \<and> date_lt (date_of d) today \<and> status x \<noteq> COMPLETED)"
    for x :: Task
    by (cases "due_date x") simp_all
  have eq: "get_overdue_tasks self today
     = filter (\<lambda>t. \<exists>d. due_date t = Some d \<and> date_lt (date_of d) today \<and> status t \<noteq> COMPLETED)
         (get_all_tasks self)"
    by (simp add: get_overdue_tasks_def get_all_tasks_def p)
  have tomorrow: "\<not> date_lt (next_day today) today"
    using date_lt_asym [OF date_lt_next_day [of today]] .
  show ?thesis
    unfolding eq using date_lt_next_day [of "date_of d"] tomorrow by auto
qed

lemma overdue_store_tasks:
  "get_all_tasks overdue_store =
     [\<lparr>task_id = 1, title = ''late'', description = [], priority = HIGH, status = PENDING,
        due_date = Some (Datetime 2024 3 9 17 0 0 0), created_at = clock 0,
        updated_at = clock 0, tags = []\<rparr>,
      \<lparr>task_id = 2, title = ''done'', description = [], priority = LOW, status = COMPLETED,
        due_date = Some (Datetime 2024 3 9 8 0 0 0), created_at = clock 1,
        updated_at = clock 2, tags = []\<rparr>,
      \<lparr>task_id = 3, title = ''soon'', description = [], priority = MEDIUM, status = PENDING,
        due_date = Some (Datetime 2024 3 11 0 0 0 0), created_at = clock 3,
        updated_at = clock 3, tags = []\<rparr>]"
  by (simp add: overdue_store_def fresh_store_def add_task_def mark_completed_def
      update_task_def Let_def get_all_tasks_def dict_values_def dict_get_def)

theorem get_overdue_tasks_exact_witness:
  "get_overdue_tasks overdue_store (Date 2024 3 10) =
     [\<lparr>task_id = 1, title = ''late'', description = [], priority = HIGH, status = PENDING,
        due_date = Some (Datetime 2024 3 9 17 0 0 0), created_at = clock 0,
        updated_at = clock 0, tags = []\<rparr>]
   \<and> map title (get_all_tasks overdue_store) = [''late'', ''done'', ''soon'']
   \<and> next_day (Date 2024 3 9) = Date 2024 3 10
   \<and> next_day (Date 2024 3 10) = Date 2024 3 11"
  using get_overdue_tasks_exact [of overdue_store "Date 2024 3 10"]
  by (simp add: overdue_store_tasks days_in_month_def)

subsection \<open>Unreadable backing files\<close>

text \<open>Text that is not JSON, a record without its required keys, an unknown priority token
  and an unparseable date string are caught, and the store starts fresh.\<close>

lemma init_recovers_examples:
  "TaskStore_init (Some Not_JSON) = Returns \<lparr>tasks = [], next_id = 1, storage_file = Some Not_JSON\<rparr>"
  "TaskStore_init (document_of [JDict []])
     = Returns \<lparr>tasks = [], next_id = 1, storage_file = document_of [JDict []]\<rparr>"
  "TaskStore_init (document_of [sample_record (JStr ''urgent'') (JStr ''2024-03-10T09:30:00'')])
     = Returns \<lparr>tasks = [], next_id = 1,
         storage_file = document_of [sample_record (JStr ''urgent'') (JStr ''2024-03-10T09:30:00'')]\<rparr>"
  "TaskStore_init (document_of [sample_record (JStr ''low'') (JStr ''yesterday'')])
     = Returns \<lparr>tasks = [], next_id = 1,
         storage_file = document_of [sample_record (JStr ''low'') (JStr ''yesterday'')]\<rparr>"
  by (simp_all add: TaskStore_init_def load_from_file_def load_document_def json_load_def
      and_then_def document_of_def sample_record_def load_task_def Priority_of_def
      Status_of_def fromisoformat_def)

lemma init_raises_only_uncaught:
  "TaskStore_init f = Raises e \<Longrightarrow> e = AttributeError \<or> e = TypeError"
  by (cases e)
    (auto simp: TaskStore_init_def load_from_file_def split: option.splits sum.splits if_splits)

text \<open>
  Claim C4 says that constructing the store on any structurally unreadable backing file
  returns the empty collection with counter 1 and never raises. The handler of
  \<open>load_from_file\<close> catches JSONDecodeError, KeyError and ValueError only. A file whose
  JSON value is an array, a record that is not an object, a \<^verbatim>\<open>tasks\<close> value that cannot
  be iterated and a date value that is not a string raise AttributeError or TypeError,
  which leave the constructor.
\<close>

theorem init_raises_on_malformed_structure:
  "TaskStore_init (Some (Document (JList []))) = Raises AttributeError
   \<and> TaskStore_init (document_of [JNull]) = Raises AttributeError
   \<and> TaskStore_init (Some (Document (JDict [(''next_id'', JInt 2), (''tasks'', JNull)])))
       = Raises TypeError
   \<and> TaskStore_init (document_of [sample_record (JStr ''low'') JNull]) = Raises TypeError"
  by (simp add: TaskStore_init_def load_from_file_def load_document_def json_load_def
      and_then_def document_of_def sample_record_def load_task_def Priority_of_def
      Status_of_def)

end
